theory Spec2Isabelle
  imports Main "HOL-Library.Char_ord" "HOL-Library.List_Lexorder"
begin

section \<open>The streaming client of the market monitoring dashboard\<close>

text \<open>
  This theory embeds the client-side streaming logic of the dashboard:
  the hook \<^verbatim>\<open>useWebSocket\<close> (frontend/src/hooks/useWebSocket.ts) and the
  provider \<^verbatim>\<open>MarketDataProvider\<close> that keeps the watchlist and resubscribes.

  The hook keeps its data in React state (\<^verbatim>\<open>useState\<close>) and in refs
  (\<^verbatim>\<open>useRef\<close>); both become fields of one record. What the browser holds for the
  hook is part of the record too: the sockets created so far with their
  \<^verbatim>\<open>readyState\<close>, the pending timeouts, the frames handed to \<^verbatim>\<open>send\<close>, the calls
  of \<^verbatim>\<open>close\<close> and the console. Every handler of the source is a function from
  state to state; the browser decides which handler runs next.

  Conventions of the embedding:
  \<^item> Durations are milliseconds, as natural numbers.
  \<^item> The interfaces \<^verbatim>\<open>MarketData\<close> and \<^verbatim>\<open>WebSocketMessage\<close> are erased when the
    source is compiled: the handler works on whatever \<^verbatim>\<open>JSON.parse\<close> returns. A
    frame is therefore any JSON value, and a text that does not parse is
    \<open>SyntaxError\<close>.
  \<^item> React 18 batches the state updates of one handler into one render. A handler
    is therefore followed by one render when it changed React state, and the
    render runs the effects whose dependencies changed.
  \<^item> The provider's second effect, which saves the watchlist to \<^verbatim>\<open>localStorage\<close>,
    reads the watchlist and writes nothing that the client reads back; it is left out.
\<close>

subsection \<open>Data\<close>

text \<open>
  The values that \<^verbatim>\<open>JSON.parse\<close> returns. A number is kept as the text that
  JavaScript's \<^verbatim>\<open>String\<close> gives for it, with \<open>-0\<close> for negative zero: the handler
  never computes with a number, it only tests whether it is zero and may use it as
  a property key. An object lists its properties in the order of the text; where
  a key is repeated the last one counts, as in \<^verbatim>\<open>JSON.parse\<close>.
\<close>

datatype json =
    JNull
  | JBool bool
  | JNum string
  | JStr string
  | JArr "json list"
  | JObj "(string \<times> json) list"

text \<open>
  \<open>field v k\<close> is the property read \<^verbatim>\<open>v.k\<close> on a value other than \<^verbatim>\<open>null\<close>, for the
  three keys the handler reads (\<open>type\<close>, \<open>symbol\<close>, \<open>data\<close>): \<open>None\<close> is
  \<^verbatim>\<open>undefined\<close>, which is what every value but an object with that key gives.
  On \<^verbatim>\<open>null\<close> the read throws; \<open>on_message\<close> treats that case before it reads.
\<close>

definition field :: "json \<Rightarrow> string \<Rightarrow> json option" where
  "field v k = (case v of JObj kvs \<Rightarrow> map_of (rev kvs) k | _ \<Rightarrow> None)"

text \<open>A value in a boolean position, and a property read in a boolean position.\<close>

definition truthy :: "json \<Rightarrow> bool" where
  "truthy v =
     (case v of
        JNull \<Rightarrow> False
      | JBool b \<Rightarrow> b
      | JNum t \<Rightarrow> t \<noteq> ''0'' \<and> t \<noteq> ''-0'' \<and> t \<noteq> ''NaN''
      | JStr s \<Rightarrow> s \<noteq> []
      | JArr xs \<Rightarrow> True
      | JObj kvs \<Rightarrow> True)"


text \<open>
  \<open>is_primitive\<close>: React compares a new state with the old one by \<^verbatim>\<open>Object.is\<close>.
  A parsed array or object is a new object and never the old state; a primitive
  is the old state when it is the same primitive.
\<close>

definition is_primitive :: "json \<Rightarrow> bool" where
  "is_primitive v = (case v of JArr xs \<Rightarrow> False | JObj kvs \<Rightarrow> False | _ \<Rightarrow> True)"

text \<open>
  \<open>to_key\<close> is the property key that a value becomes in \<^verbatim>\<open>{[message.symbol]: ...}\<close>:
  a string is its own key, every other value is converted by \<^verbatim>\<open>String\<close>. An array
  joins the keys of its elements with commas, \<^verbatim>\<open>null\<close> elements giving the empty
  text.
\<close>

fun join :: "string list \<Rightarrow> string" where
  "join [] = []"
| "join [x] = x"
| "join (x # y # ys) = x @ '','' @ join (y # ys)"

fun to_key :: "json \<Rightarrow> string" where
  "to_key JNull = ''null''"
| "to_key (JBool b) = (if b then ''true'' else ''false'')"
| "to_key (JNum t) = (if t = ''-0'' then ''0'' else t)"
| "to_key (JStr s) = s"
| "to_key (JArr xs) = join (map (\<lambda>x. if x = JNull then [] else to_key x) xs)"
| "to_key (JObj kvs) = ''[object Object]''"

datatype inbound = SyntaxError | Parsed json

datatype connectionStatus = Connecting | Connected | Disconnected | Error

datatype readyState = CONNECTING | OPEN | CLOSING | CLOSED

text \<open>The three objects that the source passes to \<^verbatim>\<open>sendMessage\<close>.\<close>

datatype outbound =
    SubscribeMsg "string list"
  | UnsubscribeMsg "string list"
  | PingMsg string

datatype console_entry =
    ConsoleLog string
  | ConsoleWarn string
  | ConsoleError string
  | ReconnectAttemptLog nat

record client =
  socks :: "readyState list"
  ws :: "nat option"
  isConnected :: bool
  marketData :: "string \<rightharpoonup> json"
  connectionStatus :: connectionStatus
  lastMessage :: json
  reconnectTimeoutRef :: "nat option"
  reconnectAttempts :: nat
  watchlist :: "string list"
  timers :: "(nat \<times> nat) list"
  next_timer :: nat
  sent :: "(nat \<times> outbound) list"
  closes :: "(nat \<times> nat) list"
  console :: "console_entry list"

text \<open>
  \<open>socks\<close> lists the \<^verbatim>\<open>WebSocket\<close> objects constructed so far; a socket is known by
  its index. \<open>ws\<close> is \<^verbatim>\<open>ws.current\<close>. \<open>timers\<close> holds the pending timeouts as pairs
  of identifier and delay; \<open>next_timer\<close> is the identifier that the next
  \<^verbatim>\<open>setTimeout\<close> returns (identifiers are positive, so a ref that was set is truthy). \<open>sent\<close> logs every frame given to \<^verbatim>\<open>send\<close> with the socket
  it went to, \<open>closes\<close> every call of \<^verbatim>\<open>close\<close> with its socket and close code.
\<close>

definition maxReconnectAttempts :: nat where
  "maxReconnectAttempts = 5"

subsection \<open>Upper case\<close>

text \<open>
  \<^verbatim>\<open>toUpperCase\<close> on ticker symbols. A \<open>char\<close> is a byte, so the model covers the
  ASCII letters and leaves every other byte as it is.
\<close>

definition upper_char :: "char \<Rightarrow> char" where
  "upper_char c =
     (let n = (of_char c :: nat)
      in if 97 \<le> n \<and> n \<le> 122 then char_of (n - 32) else c)"

definition toUpperCase :: "string \<Rightarrow> string" where
  "toUpperCase s = map upper_char s"

subsection \<open>Sending\<close>

definition is_open :: "client \<Rightarrow> bool" where
  "is_open s =
     (case ws s of
        None \<Rightarrow> False
      | Some i \<Rightarrow> i < length (socks s) \<and> socks s ! i = OPEN)"

definition sendMessage :: "outbound \<Rightarrow> client \<Rightarrow> client" where
  "sendMessage message s =
     (if is_open s
      then s\<lparr>sent := sent s @ [(the (ws s), message)]\<rparr>
      else s\<lparr>console := console s @ [ConsoleWarn ''WebSocket is not connected'']\<rparr>)"

definition subscribe :: "string list \<Rightarrow> client \<Rightarrow> client" where
  "subscribe symbols s = sendMessage (SubscribeMsg (map toUpperCase symbols)) s"

definition unsubscribe :: "string list \<Rightarrow> client \<Rightarrow> client" where
  "unsubscribe symbols s = sendMessage (UnsubscribeMsg (map toUpperCase symbols)) s"

subsection \<open>Rendering\<close>

text \<open>
  The provider's effect
  \<^verbatim>\<open>if (webSocket.isConnected && watchlist.length > 0) webSocket.subscribe(watchlist)\<close>
  lists \<^verbatim>\<open>webSocket\<close> among its dependencies. The hook returns a new object on
  every render, so the effect runs after every render of the provider.
\<close>

definition run_effects :: "client \<Rightarrow> client" where
  "run_effects s =
     (if isConnected s \<and> watchlist s \<noteq> [] then subscribe (watchlist s) s else s)"

definition rerender :: "bool \<Rightarrow> client \<Rightarrow> client" where
  "rerender changed s = (if changed then run_effects s else s)"

subsection \<open>The connection\<close>

text \<open>
  \<open>connect ok\<close>: \<open>ok\<close> tells whether the constructor \<^verbatim>\<open>new WebSocket(wsUrl)\<close>
  returned (it throws on a URL the browser refuses). The new socket starts in
  \<open>CONNECTING\<close>.
\<close>

definition connect :: "bool \<Rightarrow> client \<Rightarrow> client" where
  "connect ok s =
     (if is_open s then s
      else
        let s1 =
          (if ok
           then s\<lparr>socks := socks s @ [CONNECTING], ws := Some (length (socks s)),
                  connectionStatus := Connecting\<rparr>
           else s\<lparr>connectionStatus := Error,
                  console := console s @
                    [ConsoleError ''Failed to create WebSocket connection:'']\<rparr>)
        in rerender (connectionStatus s1 \<noteq> connectionStatus s) s1)"

text \<open>
  The handlers \<^verbatim>\<open>onopen\<close> and \<^verbatim>\<open>onclose\<close> take the index of the socket whose event
  it is: the browser has set the \<^verbatim>\<open>readyState\<close> of that socket before it calls the
  handler. The handlers themselves read and write the hook's state and refs only,
  so a socket that is no longer \<^verbatim>\<open>ws.current\<close> still runs them.
\<close>

definition on_open :: "nat \<Rightarrow> client \<Rightarrow> client" where
  "on_open i s =
     (let s1 = s\<lparr>socks := (socks s)[i := OPEN]\<rparr>;
          s2 = s1\<lparr>console := console s1 @ [ConsoleLog ''WebSocket connected''],
                  isConnected := True,
                  connectionStatus := Connected,
                  reconnectAttempts := 0\<rparr>
      in rerender (\<not> isConnected s \<or> connectionStatus s \<noteq> Connected) s2)"

text \<open>
  \<open>on_message\<close>: the \<^verbatim>\<open>try\<close> block of the handler covers the parse and everything
  after it. A text that does not parse is logged by the \<^verbatim>\<open>catch\<close>. The text
  \<^verbatim>\<open>null\<close> parses; \<^verbatim>\<open>setLastMessage(null)\<close> runs, then the read \<^verbatim>\<open>message.type\<close>
  throws and the same \<^verbatim>\<open>catch\<close> logs. Every other value is stored with
  \<^verbatim>\<open>setLastMessage\<close> and tested by
  \<^verbatim>\<open>message.type === 'market_data' && message.symbol && message.data\<close>; when the
  test holds, \<^verbatim>\<open>message.data\<close> is stored under the key \<^verbatim>\<open>message.symbol\<close>, unchecked.
  A render follows when React state changed: always after a cache update (the
  updater builds a new object), and after \<^verbatim>\<open>setLastMessage\<close> unless the value is a
  primitive that \<open>lastMessage\<close> holds already.
\<close>

definition on_message :: "inbound \<Rightarrow> client \<Rightarrow> client" where
  "on_message raw s =
     (case raw of
        SyntaxError \<Rightarrow>
          s\<lparr>console := console s @ [ConsoleError ''Error parsing WebSocket message:'']\<rparr>
      | Parsed message \<Rightarrow>
          let changed = \<not> (is_primitive message \<and> lastMessage s = message);
              s1 = s\<lparr>lastMessage := message\<rparr>
          in if message = JNull
             then rerender changed
                    (s1\<lparr>console := console s1 @
                          [ConsoleError ''Error parsing WebSocket message:'']\<rparr>)
             else
               (case (field message ''symbol'', field message ''data'') of
                  (Some key, Some d) \<Rightarrow>
                    if field message ''type'' = Some (JStr ''market_data'')
                       \<and> truthy key \<and> truthy d
                    then run_effects (s1\<lparr>marketData := (marketData s1)(to_key key \<mapsto> d)\<rparr>)
                    else rerender changed s1
                | _ \<Rightarrow> rerender changed s1))"

definition reconnect_delay :: "nat \<Rightarrow> nat" where
  "reconnect_delay attempts = min (1000 * 2 ^ attempts) 30000"

definition on_close :: "nat \<Rightarrow> nat \<Rightarrow> client \<Rightarrow> client" where
  "on_close i code s =
     (let s1 = s\<lparr>socks := (socks s)[i := CLOSED]\<rparr>;
          s2 = s1\<lparr>console := console s1 @ [ConsoleLog ''WebSocket disconnected:''],
                  isConnected := False,
                  connectionStatus := Disconnected\<rparr>;
          s3 =
            (if code \<noteq> 1000 \<and> reconnectAttempts s2 < maxReconnectAttempts
             then
               let attempts = reconnectAttempts s2 + 1;
                   delay = reconnect_delay attempts
               in s2\<lparr>reconnectAttempts := attempts,
                     reconnectTimeoutRef := Some (next_timer s2),
                     timers := timers s2 @ [(next_timer s2, delay)],
                     next_timer := next_timer s2 + 1\<rparr>
             else s2)
      in rerender (isConnected s \<or> connectionStatus s \<noteq> Disconnected) s3)"

definition on_error :: "client \<Rightarrow> client" where
  "on_error s =
     (let s1 = s\<lparr>console := console s @ [ConsoleError ''WebSocket error:''],
                 connectionStatus := Error\<rparr>
      in rerender (connectionStatus s \<noteq> Error) s1)"

text \<open>
  The callback given to \<^verbatim>\<open>setTimeout\<close>. A timeout that is no longer pending
  (it ran, or \<^verbatim>\<open>clearTimeout\<close> removed it) does nothing.
\<close>

definition fire_timer :: "nat \<Rightarrow> bool \<Rightarrow> client \<Rightarrow> client" where
  "fire_timer tid ok s =
     (if tid \<in> fst ` set (timers s)
      then connect ok
             (s\<lparr>timers := filter (\<lambda>t. fst t \<noteq> tid) (timers s),
                console := console s @ [ReconnectAttemptLog (reconnectAttempts s)]\<rparr>)
      else s)"

text \<open>
  \<^verbatim>\<open>close(1000, 'Manual disconnect')\<close> as the browser performs it: a socket that is
  not yet closed starts closing; the close event comes later.
\<close>

definition sock_close :: "nat \<Rightarrow> readyState list \<Rightarrow> readyState list" where
  "sock_close i ss =
     (if i < length ss \<and> ss ! i \<noteq> CLOSED then ss[i := CLOSING] else ss)"

text \<open>
  \<open>disconnect\<close> is the cleanup of the hook's mount effect; it runs when the
  component is unmounted, so no render follows it.
\<close>

definition disconnect :: "client \<Rightarrow> client" where
  "disconnect s =
     (let s1 =
            (case reconnectTimeoutRef s of
               Some tid \<Rightarrow> s\<lparr>timers := filter (\<lambda>t. fst t \<noteq> tid) (timers s)\<rparr>
             | None \<Rightarrow> s);
          s2 =
            (case ws s1 of
               Some i \<Rightarrow>
                 s1\<lparr>socks := sock_close i (socks s1),
                    closes := closes s1 @ [(i, 1000)],
                    ws := None\<rparr>
             | None \<Rightarrow> s1)
      in s2\<lparr>isConnected := False, connectionStatus := Disconnected\<rparr>)"

text \<open>The heartbeat callback, run by \<^verbatim>\<open>setInterval\<close> every \<open>heartbeat_interval\<close>.\<close>

definition heartbeat_interval :: nat where
  "heartbeat_interval = 30000"

definition heartbeat :: "string \<Rightarrow> client \<Rightarrow> client" where
  "heartbeat now s = (if is_open s then sendMessage (PingMsg now) s else s)"

subsection \<open>The watchlist\<close>

text \<open>
  The three operations of the provider. \<^verbatim>\<open>setWatchlist\<close> is given a new array each
  time, so a render follows every call of it; the frames that the operation
  itself sends leave before that render.
\<close>

definition addToWatchlist :: "string list \<Rightarrow> client \<Rightarrow> client" where
  "addToWatchlist symbols s =
     (let upperSymbols = map toUpperCase symbols;
          newSymbols = filter (\<lambda>x. x \<notin> set (watchlist s)) upperSymbols
      in if newSymbols \<noteq> []
         then
           let s1 = (if isConnected s then subscribe newSymbols s else s)
           in run_effects (s1\<lparr>watchlist := watchlist s @ newSymbols\<rparr>)
         else s)"

definition removeFromWatchlist :: "string list \<Rightarrow> client \<Rightarrow> client" where
  "removeFromWatchlist symbols s =
     (let upperSymbols = map toUpperCase symbols;
          s1 = (if isConnected s then unsubscribe upperSymbols s else s)
      in run_effects
           (s1\<lparr>watchlist := filter (\<lambda>x. x \<notin> set upperSymbols) (watchlist s)\<rparr>))"

definition clearWatchlist :: "client \<Rightarrow> client" where
  "clearWatchlist s =
     (let s1 = (if isConnected s then unsubscribe (watchlist s) s else s)
      in run_effects (s1\<lparr>watchlist := []\<rparr>))"

subsection \<open>Runs\<close>

text \<open>
  What can happen to a client, one event at a time: the calls of the public
  interface and the callbacks that the browser makes.
\<close>

datatype event =
    Mount bool
  | Unmount
  | SockOpen nat
  | SockMessage inbound
  | SockClose nat nat
  | SockError
  | Timeout nat bool
  | Tick string
  | Subscribe "string list"
  | Unsubscribe "string list"
  | Add "string list"
  | Remove "string list"
  | Clear

fun step :: "event \<Rightarrow> client \<Rightarrow> client" where
  "step (Mount ok) s = connect ok s"
| "step Unmount s = disconnect s"
| "step (SockOpen i) s = on_open i s"
| "step (SockMessage raw) s = on_message raw s"
| "step (SockClose i code) s = on_close i code s"
| "step SockError s = on_error s"
| "step (Timeout tid ok) s = fire_timer tid ok s"
| "step (Tick now) s = heartbeat now s"
| "step (Subscribe symbols) s = subscribe symbols s"
| "step (Unsubscribe symbols) s = unsubscribe symbols s"
| "step (Add symbols) s = addToWatchlist symbols s"
| "step (Remove symbols) s = removeFromWatchlist symbols s"
| "step Clear s = clearWatchlist s"

definition run :: "event list \<Rightarrow> client \<Rightarrow> client" where
  "run evs s = fold step evs s"

text \<open>The client before the mount effect has run, with the default watchlist.\<close>

definition default_watchlist :: "string list" where
  "default_watchlist =
     [''AAPL'', ''GOOGL'', ''MSFT'', ''TSLA'', ''AMZN'',
      ''META'', ''NVDA'', ''SPY'', ''QQQ'', ''IWM'']"

definition initial :: "string list \<Rightarrow> client" where
  "initial wl =
     \<lparr>socks = [], ws = None, isConnected = False, marketData = Map.empty,
      connectionStatus = Disconnected, lastMessage = JNull,
      reconnectTimeoutRef = None, reconnectAttempts = 0, watchlist = wl,
      timers = [], next_timer = 1, sent = [], closes = [], console = []\<rparr>"

subsection \<open>Concrete clients and frames\<close>

text \<open>
  A client whose first socket has opened, a client that reconnects after an
  abnormal close, and a client whose reconnect attempts have all failed: five
  sockets in a row closed with code 1006 before they opened.
\<close>

definition connected_client :: "string list \<Rightarrow> client" where
  "connected_client wl = run [Mount True, SockOpen 0] (initial wl)"

definition reconnecting_client :: "string list \<Rightarrow> client" where
  "reconnecting_client wl =
     run [Mount True, SockOpen 0, SockClose 0 1006, Timeout 1 True] (initial wl)"

definition exhausted_client :: client where
  "exhausted_client =
     run [Mount True, SockClose 0 1006, Timeout 1 True, SockClose 1 1006, Timeout 2 True,
          SockClose 2 1006, Timeout 3 True, SockClose 3 1006, Timeout 4 True,
          SockClose 4 1006, Timeout 5 True]
       (initial default_watchlist)"

text \<open>
  A client that was mounted, unmounted and mounted again (the hook's effect is
  cleaned up and run again on the same refs), whose abandoned sockets closed
  abnormally while it reconnected, and that is connected on its fourth socket.
\<close>

definition stale_timer_client :: client where
  "stale_timer_client =
     run [Mount True, Unmount, Mount True, SockClose 0 1006, Timeout 1 True,
          SockClose 1 1006, SockOpen 2, SockClose 2 1006, Timeout 3 True, SockOpen 3]
       (initial [''AAPL''])"

text \<open>Two records as the server sends them, and frames around them.\<close>

definition older_record :: json where
  "older_record =
     JObj [(''symbol'', JStr ''AAPL''), (''price'', JNum ''150''), (''change'', JNum ''1''),
           (''change_percent'', JNum ''0.67''), (''volume'', JNum ''1000''),
           (''high'', JNum ''151''), (''low'', JNum ''149''), (''open'', JNum ''149''),
           (''timestamp'', JStr ''2024-01-01T00:00:01Z'')]"

definition newer_record :: json where
  "newer_record =
     JObj [(''symbol'', JStr ''AAPL''), (''price'', JNum ''152''), (''change'', JNum ''3''),
           (''change_percent'', JNum ''2''), (''volume'', JNum ''2000''),
           (''high'', JNum ''152''), (''low'', JNum ''149''), (''open'', JNum ''149''),
           (''timestamp'', JStr ''2024-01-01T00:00:02Z'')]"

definition market_data_frame :: "json \<Rightarrow> json" where
  "market_data_frame d =
     JObj [(''type'', JStr ''market_data''), (''symbol'', JStr ''AAPL''), (''data'', d),
           (''timestamp'', JStr ''2024-01-01T00:00:03Z'')]"

definition unknown_frame :: json where
  "unknown_frame =
     JObj [(''type'', JStr ''quote''), (''symbol'', JStr ''AAPL''), (''data'', newer_record),
           (''timestamp'', JStr ''2024-01-01T00:00:03Z'')]"

definition garbage_frame :: json where
  "garbage_frame =
     JObj [(''type'', JStr ''market_data''), (''symbol'', JStr ''AAPL''),
           (''data'', JStr ''garbage'')]"

subsection \<open>Auxiliary notions\<close>

text \<open>
  \<open>forget\<close> erases the console. Two clients that agree after \<open>forget\<close> differ in
  what was logged only. \<open>open_at\<close> is the test of \<open>is_open\<close> on the two fields it reads.
\<close>

definition forget :: "client \<Rightarrow> client" where
  "forget s = s\<lparr>console := []\<rparr>"

definition open_at :: "nat option \<Rightarrow> readyState list \<Rightarrow> bool" where
  "open_at w ss = (case w of None \<Rightarrow> False | Some i \<Rightarrow> i < length ss \<and> ss ! i = OPEN)"

definition only_timeouts :: "event list \<Rightarrow> bool" where
  "only_timeouts evs = list_all (\<lambda>e. case e of Timeout tid ok \<Rightarrow> True | _ \<Rightarrow> False) evs"

text \<open>A run in which no socket opens.\<close>

definition no_open :: "event list \<Rightarrow> bool" where
  "no_open evs = list_all (\<lambda>e. case e of SockOpen i \<Rightarrow> False | _ \<Rightarrow> True) evs"

section \<open>Properties\<close>

subsection \<open>Sending and rendering\<close>

lemma is_open_alt: "is_open s = open_at (ws s) (socks s)"
  by (simp add: is_open_def open_at_def)

lemma sendMessage_open:
  "ws s = Some i \<Longrightarrow> is_open s \<Longrightarrow> sendMessage m s = s\<lparr>sent := sent s @ [(i, m)]\<rparr>"
  by (simp add: sendMessage_def)

lemma sendMessage_not_open:
  "\<not> is_open s \<Longrightarrow>
   sendMessage m s = s\<lparr>console := console s @ [ConsoleWarn ''WebSocket is not connected'']\<rparr>"
  by (simp add: sendMessage_def)

text \<open>The effects send at most a frame or log a warning; they touch nothing else.\<close>

lemma run_effects_frame [simp]:
  "marketData (run_effects s) = marketData s"
  "watchlist (run_effects s) = watchlist s"
  "closes (run_effects s) = closes s"
  "socks (run_effects s) = socks s"
  "ws (run_effects s) = ws s"
  "timers (run_effects s) = timers s"
  "next_timer (run_effects s) = next_timer s"
  "isConnected (run_effects s) = isConnected s"
  "lastMessage (run_effects s) = lastMessage s"
  "reconnectAttempts (run_effects s) = reconnectAttempts s"
  "reconnectTimeoutRef (run_effects s) = reconnectTimeoutRef s"
  "connectionStatus (run_effects s) = connectionStatus s"
  by (simp_all add: run_effects_def subscribe_def sendMessage_def)

lemma rerender_frame [simp]:
  "marketData (rerender b s) = marketData s"
  "watchlist (rerender b s) = watchlist s"
  "closes (rerender b s) = closes s"
  "socks (rerender b s) = socks s"
  "ws (rerender b s) = ws s"
  "timers (rerender b s) = timers s"
  "next_timer (rerender b s) = next_timer s"
  "isConnected (rerender b s) = isConnected s"
  "lastMessage (rerender b s) = lastMessage s"
  "reconnectAttempts (rerender b s) = reconnectAttempts s"
  "reconnectTimeoutRef (rerender b s) = reconnectTimeoutRef s"
  "connectionStatus (rerender b s) = connectionStatus s"
  by (simp_all add: rerender_def)


subsection \<open>The console is write-only\<close>

text \<open>
  No handler reads the console: two clients that differ in their console only
  are taken by every event to clients that differ in their console only.
\<close>

lemma forget_console [simp]: "forget (t\<lparr>console := c\<rparr>) = forget t"
  by (simp add: forget_def)

lemma sent_forget: "sent (forget s) = sent s"
  by (simp add: forget_def)

lemma forget_eqD: "forget s = forget t \<Longrightarrow> s = t\<lparr>console := console s\<rparr>"
proof -
  assume a: "forget s = forget t"
  have "s = (forget s)\<lparr>console := console s\<rparr>" by (simp add: forget_def)
  also have "\<dots> = (forget t)\<lparr>console := console s\<rparr>" by (simp only: a)
  also have "\<dots> = t\<lparr>console := console s\<rparr>" by (simp add: forget_def)
  finally show ?thesis .
qed

lemma forget_congI:
  assumes "\<And>c. forget (h (t\<lparr>console := c\<rparr>)) = forget (h t)" and "forget s = forget t"
  shows "forget (h s) = forget (h t)"
proof -
  have e: "s = t\<lparr>console := console s\<rparr>" using assms(2) by (rule forget_eqD)
  have "forget (h s) = forget (h (t\<lparr>console := console s\<rparr>))"
    using arg_cong[OF e, of "\<lambda>x. forget (h x)"] .
  then show ?thesis by (simp only: assms(1))
qed

lemma sendMessage_console:
  "forget (sendMessage m (t\<lparr>console := c\<rparr>)) = forget (sendMessage m t)"
  by (simp add: sendMessage_def forget_def is_open_alt)

lemma run_effects_console:
  "forget (run_effects (t\<lparr>console := c\<rparr>)) = forget (run_effects t)"
  by (simp add: run_effects_def subscribe_def sendMessage_console)

lemma run_effects_congI:
  "X\<lparr>console := []\<rparr> = Y\<lparr>console := []\<rparr> \<Longrightarrow>
   forget (run_effects X) = forget (run_effects Y)"
  by (rule forget_congI[of run_effects, OF run_effects_console]) (simp add: forget_def)

lemma rerender_congI:
  "X\<lparr>console := []\<rparr> = Y\<lparr>console := []\<rparr> \<Longrightarrow>
   forget (rerender b X) = forget (rerender b Y)"
proof -
  assume a: "X\<lparr>console := []\<rparr> = Y\<lparr>console := []\<rparr>"
  show ?thesis
  proof (cases b)
    case True
    then show ?thesis using run_effects_congI[OF a] by (simp add: rerender_def)
  next
    case False
    then show ?thesis using a by (simp add: rerender_def forget_def)
  qed
qed

lemma connect_console: "forget (connect ok (t\<lparr>console := c\<rparr>)) = forget (connect ok t)"
  by (auto simp: connect_def Let_def is_open_alt intro!: rerender_congI)

lemma connect_congI:
  "X\<lparr>console := []\<rparr> = Y\<lparr>console := []\<rparr> \<Longrightarrow>
   forget (connect ok X) = forget (connect ok Y)"
  by (rule forget_congI[of "connect ok", OF connect_console]) (simp add: forget_def)

lemma on_open_console: "forget (on_open i (t\<lparr>console := c\<rparr>)) = forget (on_open i t)"
  by (auto simp: on_open_def Let_def intro!: rerender_congI)

lemma on_message_console:
  "forget (on_message raw (t\<lparr>console := c\<rparr>)) = forget (on_message raw t)"
proof (cases raw)
  case SyntaxError
  then show ?thesis by (simp add: on_message_def forget_def)
next
  case (Parsed m)
  then show ?thesis
    by (auto simp: on_message_def Let_def split: option.splits
             intro!: run_effects_congI rerender_congI)
qed

lemma on_close_console:
  "forget (on_close i code (t\<lparr>console := c\<rparr>)) = forget (on_close i code t)"
  by (auto simp: on_close_def Let_def intro!: rerender_congI)

lemma on_error_console: "forget (on_error (t\<lparr>console := c\<rparr>)) = forget (on_error t)"
  by (auto simp: on_error_def Let_def intro!: rerender_congI)

lemma fire_timer_console:
  "forget (fire_timer tid ok (t\<lparr>console := c\<rparr>)) = forget (fire_timer tid ok t)"
  by (auto simp: fire_timer_def intro!: connect_congI)

lemma disconnect_console: "forget (disconnect (t\<lparr>console := c\<rparr>)) = forget (disconnect t)"
  by (simp add: disconnect_def forget_def Let_def split: option.splits)

lemma heartbeat_console:
  "forget (heartbeat now (t\<lparr>console := c\<rparr>)) = forget (heartbeat now t)"
  by (simp add: heartbeat_def is_open_alt sendMessage_console)

lemma subscribe_console:
  "forget (subscribe xs (t\<lparr>console := c\<rparr>)) = forget (subscribe xs t)"
  by (simp add: subscribe_def sendMessage_console)

lemma unsubscribe_console:
  "forget (unsubscribe xs (t\<lparr>console := c\<rparr>)) = forget (unsubscribe xs t)"
  by (simp add: unsubscribe_def sendMessage_console)

lemma addToWatchlist_console:
  "forget (addToWatchlist xs (t\<lparr>console := c\<rparr>)) = forget (addToWatchlist xs t)"
  by (auto simp: addToWatchlist_def Let_def subscribe_def sendMessage_def is_open_alt
           intro!: run_effects_congI)

lemma removeFromWatchlist_console:
  "forget (removeFromWatchlist xs (t\<lparr>console := c\<rparr>)) = forget (removeFromWatchlist xs t)"
  by (auto simp: removeFromWatchlist_def Let_def unsubscribe_def sendMessage_def is_open_alt
           intro!: run_effects_congI)

lemma clearWatchlist_console:
  "forget (clearWatchlist (t\<lparr>console := c\<rparr>)) = forget (clearWatchlist t)"
  by (auto simp: clearWatchlist_def Let_def unsubscribe_def sendMessage_def is_open_alt
           intro!: run_effects_congI)

lemma step_console: "forget (step e (t\<lparr>console := c\<rparr>)) = forget (step e t)"
  by (cases e)
     (simp_all only: step.simps connect_console disconnect_console on_open_console
        on_message_console on_close_console on_error_console fire_timer_console
        heartbeat_console subscribe_console unsubscribe_console addToWatchlist_console
        removeFromWatchlist_console clearWatchlist_console)

lemma run_cong:
  "forget s = forget t \<Longrightarrow> forget (run evs s) = forget (run evs t)"
proof (induction evs arbitrary: s t)
  case Nil
  then show ?case by (simp add: run_def)
next
  case (Cons e evs)
  have "forget (step e s) = forget (step e t)"
    using step_console Cons.prems by (rule forget_congI)
  then have "forget (run evs (step e s)) = forget (run evs (step e t))"
    by (rule Cons.IH)
  then show ?case by (simp add: run_def)
qed

lemma run_same_sent:
  assumes "forget s = forget t"
  shows "sent (run evs s) = sent (run evs t)"
proof -
  have "sent (forget (run evs s)) = sent (forget (run evs t))"
    by (simp only: run_cong[OF assms])
  then show ?thesis by (simp only: sent_forget)
qed

subsection \<open>Timeouts and shutdown\<close>

lemma reconnect_delay_cap: "5 \<le> k \<Longrightarrow> reconnect_delay k = 30000"
proof -
  assume "5 \<le> k"
  then have "(2::nat) ^ 5 \<le> 2 ^ k" by (intro power_increasing) simp_all
  then have "(30000::nat) \<le> 1000 * 2 ^ k" by simp
  then show ?thesis by (simp add: reconnect_delay_def)
qed

lemma fire_timer_none: "timers s = [] \<Longrightarrow> fire_timer tid ok s = s"
  by (simp add: fire_timer_def)

lemma run_timeouts_none: "timers s = [] \<Longrightarrow> only_timeouts evs \<Longrightarrow> run evs s = s"
proof (induction evs)
  case Nil
  then show ?case by (simp add: run_def)
next
  case (Cons e evs)
  from Cons.prems(2) obtain tid ok where e: "e = Timeout tid ok"
    by (cases e) (simp_all add: only_timeouts_def)
  from Cons.prems(2) have rest: "only_timeouts evs" by (simp add: only_timeouts_def)
  have "run (e # evs) s = run evs (fire_timer tid ok s)" by (simp add: run_def e)
  also have "\<dots> = run evs s" using Cons.prems(1) by (simp add: fire_timer_none)
  also have "\<dots> = s" using Cons.prems(1) rest by (rule Cons.IH)
  finally show ?case .
qed

lemma disconnect_timers:
  assumes "\<forall>t\<in>set (timers s). Some (fst t) = reconnectTimeoutRef s"
  shows "timers (disconnect s) = []"
proof (cases "reconnectTimeoutRef s")
  case None
  with assms have "timers s = []" by (cases "timers s") auto
  with None show ?thesis by (simp add: disconnect_def Let_def split: option.splits)
next
  case (Some tid)
  with assms have "filter (\<lambda>t. fst t \<noteq> tid) (timers s) = []"
    by (auto simp: filter_empty_conv)
  with Some show ?thesis by (simp add: disconnect_def Let_def split: option.splits)
qed

lemma on_close_1000_timers: "timers (on_close i 1000 s) = timers s"
  by (simp add: on_close_def Let_def)

lemma on_close_1000_attempts: "reconnectAttempts (on_close i 1000 s) = reconnectAttempts s"
  by (simp add: on_close_def Let_def)

lemma disconnect_closes: "ws s = Some i \<Longrightarrow> closes (disconnect s) = closes s @ [(i, 1000)]"
  by (simp add: disconnect_def Let_def split: option.splits)

subsection \<open>Counting the reconnects\<close>

text \<open>
  \<open>next_timer\<close> counts the calls of \<^verbatim>\<open>setTimeout\<close>, that is the reconnects
  scheduled so far. Only the close handler schedules, and it increments the
  attempt counter with every timeout it schedules; only the open handler sets the
  counter back. So in a run without an open the sum of \<open>next_timer\<close> and of what
  is left of the five attempts does not grow.
\<close>

lemma sendMessage_counts [simp]:
  "next_timer (sendMessage m s) = next_timer s"
  "reconnectAttempts (sendMessage m s) = reconnectAttempts s"
  by (simp_all add: sendMessage_def)

lemma connect_counts [simp]:
  "next_timer (connect ok s) = next_timer s"
  "reconnectAttempts (connect ok s) = reconnectAttempts s"
  by (simp_all add: connect_def Let_def)

lemma disconnect_counts [simp]:
  "next_timer (disconnect s) = next_timer s"
  "reconnectAttempts (disconnect s) = reconnectAttempts s"
  by (simp_all add: disconnect_def Let_def split: option.splits)

lemma on_message_counts [simp]:
  "next_timer (on_message raw s) = next_timer s"
  "reconnectAttempts (on_message raw s) = reconnectAttempts s"
  by (cases raw; simp add: on_message_def Let_def split: option.splits)+

lemma on_error_counts [simp]:
  "next_timer (on_error s) = next_timer s"
  "reconnectAttempts (on_error s) = reconnectAttempts s"
  by (simp_all add: on_error_def Let_def)

lemma fire_timer_counts [simp]:
  "next_timer (fire_timer tid ok s) = next_timer s"
  "reconnectAttempts (fire_timer tid ok s) = reconnectAttempts s"
  by (simp_all add: fire_timer_def)

lemma heartbeat_counts [simp]:
  "next_timer (heartbeat now s) = next_timer s"
  "reconnectAttempts (heartbeat now s) = reconnectAttempts s"
  by (simp_all add: heartbeat_def)

lemma watchlist_counts [simp]:
  "next_timer (addToWatchlist xs s) = next_timer s"
  "reconnectAttempts (addToWatchlist xs s) = reconnectAttempts s"
  "next_timer (removeFromWatchlist xs s) = next_timer s"
  "reconnectAttempts (removeFromWatchlist xs s) = reconnectAttempts s"
  "next_timer (clearWatchlist s) = next_timer s"
  "reconnectAttempts (clearWatchlist s) = reconnectAttempts s"
  by (simp_all add: addToWatchlist_def removeFromWatchlist_def clearWatchlist_def
        subscribe_def unsubscribe_def Let_def)

lemma on_close_counts:
  "next_timer (on_close i code s) + (maxReconnectAttempts - reconnectAttempts (on_close i code s))
     = next_timer s + (maxReconnectAttempts - reconnectAttempts s)"
  by (auto simp: on_close_def Let_def)

lemma step_counts:
  assumes "case e of SockOpen i \<Rightarrow> False | _ \<Rightarrow> True"
  shows "next_timer (step e s) + (maxReconnectAttempts - reconnectAttempts (step e s))
           = next_timer s + (maxReconnectAttempts - reconnectAttempts s)"
  using assms by (cases e) (simp_all add: on_close_counts subscribe_def unsubscribe_def)

lemma run_counts:
  "no_open evs \<Longrightarrow>
   next_timer (run evs s) + (maxReconnectAttempts - reconnectAttempts (run evs s))
     = next_timer s + (maxReconnectAttempts - reconnectAttempts s)"
proof (induction evs arbitrary: s)
  case Nil
  then show ?case by (simp add: run_def)
next
  case (Cons e evs)
  from Cons.prems have e: "case e of SockOpen i \<Rightarrow> False | _ \<Rightarrow> True"
    and rest: "no_open evs"
    by (simp_all add: no_open_def)
  have "run (e # evs) s = run evs (step e s)" by (simp add: run_def)
  then show ?case using Cons.IH[OF rest, of "step e s"] step_counts[OF e, of s] by simp
qed

subsection \<open>The heartbeat\<close>

lemma heartbeat_open:
  "ws s = Some i \<Longrightarrow> is_open s \<Longrightarrow>
   heartbeat now s = s\<lparr>sent := sent s @ [(i, PingMsg now)]\<rparr>"
  by (simp add: heartbeat_def sendMessage_def)

lemma ticks_open:
  "ws s = Some i \<Longrightarrow> is_open s \<Longrightarrow>
   run (map Tick ts) s = s\<lparr>sent := sent s @ map (\<lambda>t. (i, PingMsg t)) ts\<rparr>"
proof (induction ts arbitrary: s)
  case Nil
  then show ?case by (simp add: run_def)
next
  case (Cons t ts)
  let ?s1 = "s\<lparr>sent := sent s @ [(i, PingMsg t)]\<rparr>"
  have o: "ws ?s1 = Some i" "is_open ?s1" using Cons.prems by (simp_all add: is_open_alt)
  have "run (map Tick (t # ts)) s = run (map Tick ts) (heartbeat t s)"
    by (simp add: run_def)
  also have "\<dots> = run (map Tick ts) ?s1" using Cons.prems by (simp add: heartbeat_open)
  also have "\<dots> = ?s1\<lparr>sent := sent ?s1 @ map (\<lambda>t. (i, PingMsg t)) ts\<rparr>"
    using Cons.IH[OF o] .
  finally show ?case by simp
qed

subsection \<open>The concrete clients\<close>

lemmas handler_defs =
  run_def initial_def connect_def on_open_def on_close_def on_message_def on_error_def
  fire_timer_def disconnect_def heartbeat_def rerender_def run_effects_def subscribe_def
  unsubscribe_def sendMessage_def is_open_def sock_close_def reconnect_delay_def
  maxReconnectAttempts_def Let_def

lemma toUpperCase_examples:
  "toUpperCase ''AAPL'' = ''AAPL''"
  "toUpperCase ''msft'' = ''MSFT''"
  "toUpperCase ''MSFT'' = ''MSFT''"
  "toUpperCase ''aapl'' = ''AAPL''"
  "toUpperCase ''tsla'' = ''TSLA''"
  by code_simp+

lemma connected_client_eval:
  "connected_client wl =
     \<lparr>socks = [OPEN], ws = Some 0, isConnected = True, marketData = Map.empty,
      connectionStatus = Connected, lastMessage = JNull,
      reconnectTimeoutRef = None, reconnectAttempts = 0, watchlist = wl,
      timers = [], next_timer = 1,
      sent = (if wl = [] then [] else [(0, SubscribeMsg (map toUpperCase wl))]),
      closes = [], console = [ConsoleLog ''WebSocket connected'']\<rparr>"
  by (simp add: connected_client_def handler_defs)

lemma connected_client_open:
  "ws (connected_client wl) = Some 0" "is_open (connected_client wl)"
  "timers (connected_client wl) = []" "next_timer (connected_client wl) = 1"
  "reconnectAttempts (connected_client wl) = 0"
  by (simp_all add: connected_client_eval is_open_def)

lemma reconnecting_client_eval:
  "reconnecting_client [''AAPL'', ''msft''] =
     \<lparr>socks = [CLOSED, CONNECTING], ws = Some 1, isConnected = False, marketData = Map.empty,
      connectionStatus = Connecting, lastMessage = JNull,
      reconnectTimeoutRef = Some 1, reconnectAttempts = 1, watchlist = [''AAPL'', ''msft''],
      timers = [], next_timer = 2,
      sent = [(0, SubscribeMsg [''AAPL'', ''MSFT''])],
      closes = [],
      console = [ConsoleLog ''WebSocket connected'', ConsoleLog ''WebSocket disconnected:'',
                 ReconnectAttemptLog 1]\<rparr>"
  by (simp add: reconnecting_client_def handler_defs toUpperCase_examples)

lemma exhausted_client_eval:
  "socks exhausted_client = [CLOSED, CLOSED, CLOSED, CLOSED, CLOSED, CONNECTING]"
  "ws exhausted_client = Some 5"
  "reconnectAttempts exhausted_client = 5"
  "timers exhausted_client = []"
  "isConnected exhausted_client = False"
  by (simp_all add: exhausted_client_def handler_defs)

lemma stale_timer_client_eval:
  "socks stale_timer_client = [CLOSED, CLOSED, CLOSED, OPEN]"
  "ws stale_timer_client = Some 3"
  "isConnected stale_timer_client"
  "reconnectTimeoutRef stale_timer_client = Some 3"
  "timers stale_timer_client = [(2, 4000)]"
  "closes stale_timer_client = [(0, 1000)]"
  by (simp_all add: stale_timer_client_def handler_defs)

lemma filter_none: "set xs \<subseteq> A \<Longrightarrow> filter (\<lambda>x. x \<notin> A) xs = []"
  by (auto simp: filter_empty_conv)

lemma field_examples:
  "field (market_data_frame d) ''type'' = Some (JStr ''market_data'')"
  "field (market_data_frame d) ''symbol'' = Some (JStr ''AAPL'')"
  "field (market_data_frame d) ''data'' = Some d"
  "field unknown_frame ''type'' = Some (JStr ''quote'')"
  "field garbage_frame ''type'' = Some (JStr ''market_data'')"
  "field garbage_frame ''symbol'' = Some (JStr ''AAPL'')"
  "field garbage_frame ''data'' = Some (JStr ''garbage'')"
  "field older_record ''timestamp'' = Some (JStr ''2024-01-01T00:00:01Z'')"
  "field newer_record ''timestamp'' = Some (JStr ''2024-01-01T00:00:02Z'')"
  by (simp_all add: field_def market_data_frame_def unknown_frame_def garbage_frame_def
        older_record_def newer_record_def)

lemma record_examples:
  "truthy older_record" "truthy newer_record" "older_record \<noteq> JNull"
  "market_data_frame d \<noteq> JNull" "unknown_frame \<noteq> JNull" "garbage_frame \<noteq> JNull"
  "\<not> is_primitive (market_data_frame d)" "\<not> is_primitive unknown_frame"
  by (simp_all add: truthy_def is_primitive_def older_record_def newer_record_def
        market_data_frame_def unknown_frame_def garbage_frame_def)

lemma field_JNull [simp]: "field JNull k = None"
  by (simp add: field_def)

text \<open>What the handler does with a frame that passes its test, and with one that does not.\<close>

lemma on_message_accepted:
  assumes "field m ''type'' = Some (JStr ''market_data'')"
    and "field m ''symbol'' = Some key" and "truthy key"
    and "field m ''data'' = Some d" and "truthy d"
  shows "on_message (Parsed m) s =
           run_effects (s\<lparr>lastMessage := m, marketData := (marketData s)(to_key key \<mapsto> d)\<rparr>)"
proof -
  from assms(1) have "m \<noteq> JNull" by auto
  with assms show ?thesis by (simp add: on_message_def Let_def)
qed





text \<open>
  What the shutdown achieves: when the only pending timeout is the one that
  \<open>reconnectTimeoutRef\<close> holds, \<open>disconnect\<close> cancels it, and after the close
  event with code 1000 no timeout is left to run.
\<close>

lemma shutdown_cancels_tracked_timeout:
  assumes "ws s = Some i"
    and "\<forall>t\<in>set (timers s). Some (fst t) = reconnectTimeoutRef s"
    and "only_timeouts evs"
  shows "closes (disconnect s) = closes s @ [(i, 1000)]"
    and "timers (on_close i 1000 (disconnect s)) = []"
    and "run evs (on_close i 1000 (disconnect s)) = on_close i 1000 (disconnect s)"
proof -
  show "closes (disconnect s) = closes s @ [(i, 1000)]"
    using assms(1) by (rule disconnect_closes)
  show 3: "timers (on_close i 1000 (disconnect s)) = []"
    using assms(2) by (simp add: on_close_1000_timers disconnect_timers)
  show "run evs (on_close i 1000 (disconnect s)) = on_close i 1000 (disconnect s)"
    using 3 assms(3) by (rule run_timeouts_none)
qed

section \<open>The claims\<close>

subsection \<open>C1: resubscription when the connection opens\<close>

text \<open>
  C1. When the connection transitions into Connected (the open event of the
  current socket arrives while \<open>isConnected\<close> is false), the provider's effect
  sends the watchlist in one \<^verbatim>\<open>subscribe\<close> frame: the frame carries the upper-cased
  watchlist entries in watchlist order, and no other frame is sent. What was sent
  on earlier connections plays no role. The effect is guarded by
  \<^verbatim>\<open>watchlist.length > 0\<close>: with an empty watchlist no frame is sent at all.
\<close>

theorem C1_resubscribe_on_open:
  assumes "ws s = Some i" and "i < length (socks s)" and "\<not> isConnected s"
  shows "sent (on_open i s) =
           sent s @ (if watchlist s = [] then []
                     else [(i, SubscribeMsg (map toUpperCase (watchlist s)))])"
  using assms
  by (simp add: on_open_def rerender_def run_effects_def Let_def subscribe_def
        sendMessage_def is_open_def)

theorem C1_resubscribe_on_open_witness:
  "ws (reconnecting_client [''AAPL'', ''msft'']) = Some 1
   \<and> 1 < length (socks (reconnecting_client [''AAPL'', ''msft'']))
   \<and> \<not> isConnected (reconnecting_client [''AAPL'', ''msft''])
   \<and> sent (on_open 1 (reconnecting_client [''AAPL'', ''msft''])) =
       [(0, SubscribeMsg [''AAPL'', ''MSFT'']), (1, SubscribeMsg [''AAPL'', ''MSFT''])]"
proof -
  let ?R = "reconnecting_client [''AAPL'', ''msft'']"
  have w: "ws ?R = Some 1" by (simp add: reconnecting_client_eval)
  have l: "1 < length (socks ?R)" by (simp add: reconnecting_client_eval)
  have c: "\<not> isConnected ?R" by (simp add: reconnecting_client_eval)
  from C1_resubscribe_on_open[OF w l c] show ?thesis
    using w l c by (simp add: reconnecting_client_eval toUpperCase_examples)
qed

text \<open>
  With the empty watchlist the connection opens and nothing is sent, where the
  claim asks for exactly one frame.
\<close>

theorem C1_empty_watchlist_counterexample:
  "connectionStatus (on_open 0 (connect True (initial []))) = Connected
   \<and> isConnected (on_open 0 (connect True (initial [])))
   \<and> sent (on_open 0 (connect True (initial []))) = []"
  by (simp add: on_open_def connect_def initial_def is_open_def rerender_def
        run_effects_def Let_def)

subsection \<open>C2: the cache keeps the record that arrived last\<close>

text \<open>
  C2. The handler compares no timestamps. A \<^verbatim>\<open>market_data\<close> frame with a non-empty
  symbol \<open>S\<close> and a data record (any truthy value, as every record is) always
  replaces the cached record for \<open>S\<close>, whatever the timestamps of the two records
  are: the cache is last-writer-wins by arrival order.
\<close>

theorem C2_cache_last_writer_wins:
  assumes "field m ''type'' = Some (JStr ''market_data'')"
    and "field m ''symbol'' = Some (JStr S)" and "S \<noteq> []"
    and "field m ''data'' = Some d" and "truthy d"
  shows "marketData (on_message (Parsed m) s) S = Some d"
proof -
  have "truthy (JStr S)" using assms(3) by (simp add: truthy_def)
  from on_message_accepted[OF assms(1) assms(2) this assms(4) assms(5)]
  show ?thesis by simp
qed

theorem C2_cache_last_writer_wins_witness:
  "field (market_data_frame older_record) ''type'' = Some (JStr ''market_data'')
   \<and> field (market_data_frame older_record) ''symbol'' = Some (JStr ''AAPL'')
   \<and> ''AAPL'' \<noteq> []
   \<and> field (market_data_frame older_record) ''data'' = Some older_record
   \<and> truthy older_record
   \<and> marketData (on_message (Parsed (market_data_frame older_record))
        (connected_client [''AAPL''])) ''AAPL'' = Some older_record"
proof -
  have n: "''AAPL'' \<noteq> []" by simp
  note r = C2_cache_last_writer_wins[OF field_examples(1) field_examples(2) n
      field_examples(3) record_examples(1), of "connected_client [''AAPL'']"]
  from field_examples(1)[of older_record] field_examples(2)[of older_record] n
    field_examples(3)[of older_record] record_examples(1) r
  show ?thesis by (intro conjI)
qed

text \<open>
  The record stamped \<open>00:00:02\<close> arrives first, the record stamped \<open>00:00:01\<close>
  second: the cache ends with the older record.
\<close>

theorem C2_stale_record_applied_counterexample:
  "field older_record ''timestamp'' = Some (JStr ''2024-01-01T00:00:01Z'')
   \<and> field newer_record ''timestamp'' = Some (JStr ''2024-01-01T00:00:02Z'')
   \<and> (''2024-01-01T00:00:01Z'' :: string) < ''2024-01-01T00:00:02Z''
   \<and> marketData
        (on_message (Parsed (market_data_frame older_record))
          (on_message (Parsed (market_data_frame newer_record)) (connected_client [''AAPL''])))
        ''AAPL'' = Some older_record"
proof -
  have k: "truthy (JStr ''AAPL'')" by (simp add: truthy_def)
  have "marketData
        (on_message (Parsed (market_data_frame older_record))
          (on_message (Parsed (market_data_frame newer_record)) (connected_client [''AAPL''])))
        ''AAPL'' = Some older_record"
    by (simp add: on_message_accepted[OF field_examples(1) field_examples(2) k
          field_examples(3)] record_examples)
  then show ?thesis by (simp add: field_examples)
qed

subsection \<open>C3: the backoff delays\<close>

text \<open>
  C3. The handler increments the attempt counter first and then computes
  \<^verbatim>\<open>Math.min(1000 * Math.pow(2, attempts), 30000)\<close>. For every attempt count \<open>k\<close>
  from 1 to 5 (the client makes at most five attempts) the delay before the
  \<open>k\<close>-th reconnect attempt is \<open>min (1s * 2^k) 30s\<close>: 2s, 4s, 8s, 16s and 30s; the
  delay expression is 30s for every \<open>k \<ge> 5\<close>.
\<close>

theorem C3_backoff_delay:
  assumes "code \<noteq> 1000" and "reconnectAttempts s = k - 1" and "1 \<le> k" and "k \<le> 5"
  shows "timers (on_close i code s) = timers s @ [(next_timer s, min (1000 * 2 ^ k) 30000)]
       \<and> reconnectAttempts (on_close i code s) = k
       \<and> (k = 1 \<longrightarrow> reconnect_delay k = 2000)
       \<and> (k = 2 \<longrightarrow> reconnect_delay k = 4000)
       \<and> (k = 3 \<longrightarrow> reconnect_delay k = 8000)
       \<and> (k = 4 \<longrightarrow> reconnect_delay k = 16000)
       \<and> (k = 5 \<longrightarrow> reconnect_delay k = 30000)
       \<and> (\<forall>n\<ge>5. reconnect_delay n = 30000)"
  using assms
  by (simp add: on_close_def Let_def maxReconnectAttempts_def reconnect_delay_def
        reconnect_delay_cap[unfolded reconnect_delay_def])

theorem C3_backoff_delay_witness:
  "(1006::nat) \<noteq> 1000
   \<and> reconnectAttempts (connected_client [''AAPL'']) = 1 - 1
   \<and> timers (on_close 0 1006 (connected_client [''AAPL''])) = [(1, 2000)]
   \<and> reconnectAttempts (on_close 0 1006 (connected_client [''AAPL''])) = 1
   \<and> reconnect_delay 7 = 30000"
proof -
  let ?C = "connected_client [''AAPL'']"
  have c: "(1006::nat) \<noteq> 1000" by simp
  have a: "reconnectAttempts ?C = 1 - 1" by (simp add: connected_client_open)
  have t: "timers ?C = []" by (rule connected_client_open)
  have n: "next_timer ?C = 1" by (rule connected_client_open)
  from C3_backoff_delay[OF c a, of 0] show ?thesis
    using a by (simp add: t n)
qed

text \<open>
  The first reconnect attempt is scheduled after 2000 ms; the claim's
  \<open>min (1s * 2^(k-1)) 30s\<close> asks for 1000 ms at \<open>k = 1\<close>.
\<close>

theorem C3_first_delay_counterexample:
  "reconnectAttempts (connect True (initial [])) = 0
   \<and> timers (on_close 0 1006 (connect True (initial []))) = [(1, 2000)]
   \<and> reconnectAttempts (on_close 0 1006 (connect True (initial []))) = 1
   \<and> (2000::nat) \<noteq> min (1000 * 2 ^ (1 - 1)) 30000"
  by (simp add: on_close_def connect_def initial_def is_open_def Let_def
        maxReconnectAttempts_def reconnect_delay_def rerender_def run_effects_def)

subsection \<open>C4: reconnecting after an abnormal close\<close>

text \<open>
  C4. The client counts its reconnect attempts in \<open>reconnectAttempts\<close>. For every
  close with a code other than 1000, in every state (so also while no shutdown
  was requested), a reconnect attempt is scheduled with the backoff delay and the
  counter is incremented, as long as the counter is below
  \<open>maxReconnectAttempts = 5\<close>. Once the counter has reached 5, an abnormal close
  schedules nothing. Every successful open sets the counter back to 0, so that
  the abnormal close after an open always schedules a reconnect: the bound of
  five is on the attempts in a row since the last successful open. In a run of
  events without an open, at most \<open>5 - reconnectAttempts\<close> reconnects are
  scheduled, whatever the events are (\<open>next_timer\<close> counts the timeouts scheduled).
\<close>

theorem C4_abnormal_close_reconnects:
  assumes "code \<noteq> 1000"
  shows "(reconnectAttempts s < maxReconnectAttempts \<longrightarrow>
            timers (on_close i code s) =
              timers s @ [(next_timer s, reconnect_delay (reconnectAttempts s + 1))]
          \<and> reconnectTimeoutRef (on_close i code s) = Some (next_timer s)
          \<and> reconnectAttempts (on_close i code s) = reconnectAttempts s + 1)
       \<and> (maxReconnectAttempts \<le> reconnectAttempts s \<longrightarrow>
            timers (on_close i code s) = timers s
          \<and> reconnectAttempts (on_close i code s) = reconnectAttempts s)
       \<and> maxReconnectAttempts = 5
       \<and> reconnectAttempts (on_open j s) = 0
       \<and> timers (on_close i code (on_open j s)) =
            timers s @ [(next_timer s, reconnect_delay 1)]
       \<and> reconnectAttempts (on_close i code (on_open j s)) = 1
       \<and> (no_open evs \<longrightarrow>
            next_timer (run evs s) \<le>
              next_timer s + (maxReconnectAttempts - reconnectAttempts s))"
proof -
  have b: "next_timer (run evs s) \<le>
              next_timer s + (maxReconnectAttempts - reconnectAttempts s)" if "no_open evs"
    using run_counts[OF that, of s] by simp
  have o: "reconnectAttempts (on_open j s) = 0" "timers (on_open j s) = timers s"
    "next_timer (on_open j s) = next_timer s"
    by (simp_all add: on_open_def Let_def)
  have c: "reconnectAttempts t < maxReconnectAttempts \<Longrightarrow>
            timers (on_close i code t) =
              timers t @ [(next_timer t, reconnect_delay (reconnectAttempts t + 1))]
          \<and> reconnectTimeoutRef (on_close i code t) = Some (next_timer t)
          \<and> reconnectAttempts (on_close i code t) = reconnectAttempts t + 1" for t
    using assms by (simp add: on_close_def Let_def)
  have g: "maxReconnectAttempts \<le> reconnectAttempts s \<Longrightarrow>
            timers (on_close i code s) = timers s
          \<and> reconnectAttempts (on_close i code s) = reconnectAttempts s"
    using assms by (simp add: on_close_def Let_def)
  have m: "maxReconnectAttempts = 5" by (simp add: maxReconnectAttempts_def)
  have "reconnectAttempts (on_open j s) < maxReconnectAttempts" by (simp add: o m)
  from c[OF this] have r: "timers (on_close i code (on_open j s)) =
            timers s @ [(next_timer s, reconnect_delay 1)]"
    "reconnectAttempts (on_close i code (on_open j s)) = 1"
    by (simp_all add: o)
  show ?thesis using c[of s] g m o(1) r b by blast
qed

theorem C4_abnormal_close_reconnects_witness:
  "(1006::nat) \<noteq> 1000
   \<and> reconnectAttempts (connected_client [''AAPL'']) < maxReconnectAttempts
   \<and> timers (on_close 0 1006 (connected_client [''AAPL''])) = [(1, 2000)]
   \<and> reconnectTimeoutRef (on_close 0 1006 (connected_client [''AAPL''])) = Some 1
   \<and> reconnectAttempts (on_close 0 1006 (connected_client [''AAPL''])) = 1
   \<and> reconnectAttempts exhausted_client = 5
   \<and> reconnectAttempts (on_open 5 exhausted_client) = 0
   \<and> timers (on_close 5 1006 (on_open 5 exhausted_client)) = [(6, 2000)]
   \<and> no_open [SockClose 5 1006, Timeout 6 True, SockError]
   \<and> next_timer (run [SockClose 5 1006, Timeout 6 True, SockError] exhausted_client) \<le> 6"
proof -
  let ?C = "connected_client [''AAPL'']"
  have c: "(1006::nat) \<noteq> 1000" by simp
  have a: "reconnectAttempts ?C = 0" by (rule connected_client_open)
  have t: "timers ?C = []" by (rule connected_client_open)
  have n: "next_timer ?C = 1" by (rule connected_client_open)
  have d: "reconnect_delay (0 + 1) = 2000" "reconnect_delay 1 = 2000"
    by (simp_all add: reconnect_delay_def)
  have e: "next_timer exhausted_client = 6" "timers exhausted_client = []"
    by (simp_all add: exhausted_client_def handler_defs)
  have lt: "reconnectAttempts ?C < maxReconnectAttempts"
    by (simp add: a maxReconnectAttempts_def)
  note r1 = C4_abnormal_close_reconnects[OF c, of ?C 0, THEN conjunct1, rule_format, OF lt]
  have w1: "timers (on_close 0 1006 ?C) = [(1, 2000)]"
    using r1[THEN conjunct1] by (simp only: a t n d append_Nil)
  have w2: "reconnectTimeoutRef (on_close 0 1006 ?C) = Some 1"
    using r1[THEN conjunct2, THEN conjunct1] by (simp only: n)
  have w3: "reconnectAttempts (on_close 0 1006 ?C) = 1"
    using r1[THEN conjunct2, THEN conjunct2] by (simp only: a add_0)
  note r2 = C4_abnormal_close_reconnects[OF c, of exhausted_client 5 5,
      THEN conjunct2, THEN conjunct2, THEN conjunct2]
  have w4: "reconnectAttempts (on_open 5 exhausted_client) = 0"
    using r2[THEN conjunct1] .
  have w5: "timers (on_close 5 1006 (on_open 5 exhausted_client)) = [(6, 2000)]"
    using r2[THEN conjunct2, THEN conjunct1] by (simp only: e d append_Nil)
  have no: "no_open [SockClose 5 1006, Timeout 6 True, SockError]"
    by (simp add: no_open_def)
  have "next_timer (run [SockClose 5 1006, Timeout 6 True, SockError] exhausted_client)
          \<le> next_timer exhausted_client
              + (maxReconnectAttempts - reconnectAttempts exhausted_client)"
    using C4_abnormal_close_reconnects[OF c, of exhausted_client _ _
        "[SockClose 5 1006, Timeout 6 True, SockError]",
        THEN conjunct2, THEN conjunct2, THEN conjunct2, THEN conjunct2, THEN conjunct2,
        THEN conjunct2, rule_format, OF no] .
  then have w6: "next_timer (run [SockClose 5 1006, Timeout 6 True, SockError] exhausted_client)
          \<le> 6"
    by (simp add: e exhausted_client_eval maxReconnectAttempts_def)
  from c lt w1 w2 w3 exhausted_client_eval(3) w4 w5 no w6 show ?thesis by (intro conjI)
qed

text \<open>
  After five failed attempts in a row the sixth abnormal close schedules no
  reconnect: no timeout is pending and the client stays disconnected.
\<close>

theorem C4_gives_up_counterexample:
  "reconnectAttempts exhausted_client = 5
   \<and> timers exhausted_client = []
   \<and> timers (on_close 5 1006 exhausted_client) = []
   \<and> connectionStatus (on_close 5 1006 exhausted_client) = Disconnected"
  by (simp add: exhausted_client_eval on_close_def Let_def maxReconnectAttempts_def)

subsection \<open>C5: a clean shutdown and the timeouts that were scheduled before it\<close>

text \<open>
  C5. A clean shutdown never triggers a reconnect: shutting down while Connected
  closes the session with close code 1000, and after a close with code 1000 no
  connection attempt follows, however long one waits.

  The source means this: the close handler reconnects only
  \<^verbatim>\<open>if not a manual close\<close>, and \<open>disconnect\<close> clears the reconnect timeout
  before it closes the socket. But \<open>reconnectTimeoutRef\<close> holds the timeout
  scheduled last, and \<open>disconnect\<close> clears that one only. In \<open>stale_timer_client\<close>
  the close handlers of two abandoned sockets scheduled timeouts 1 and 2, and the
  close of the third socket put timeout 3 into the ref while timeout 2 was still
  pending. The client is connected on socket 3. The shutdown calls \<^verbatim>\<open>close\<close> with
  code 1000 on socket 3 and the close event with code 1000 schedules nothing, yet
  timeout 2 is still pending: when it runs, \<open>connect\<close> constructs socket 4.
\<close>

theorem C5_stale_timeout_reconnects_after_shutdown:
  "is_open stale_timer_client
   \<and> isConnected stale_timer_client
   \<and> ws stale_timer_client = Some 3
   \<and> reconnectTimeoutRef stale_timer_client = Some 3
   \<and> timers stale_timer_client = [(2, 4000)]
   \<and> closes (disconnect stale_timer_client) = [(0, 1000), (3, 1000)]
   \<and> ws (disconnect stale_timer_client) = None
   \<and> timers (on_close 3 1000 (disconnect stale_timer_client)) = [(2, 4000)]
   \<and> socks (on_close 3 1000 (disconnect stale_timer_client)) = [CLOSED, CLOSED, CLOSED, CLOSED]
   \<and> socks (fire_timer 2 True (on_close 3 1000 (disconnect stale_timer_client)))
       = [CLOSED, CLOSED, CLOSED, CLOSED, CONNECTING]
   \<and> ws (fire_timer 2 True (on_close 3 1000 (disconnect stale_timer_client))) = Some 4
   \<and> connectionStatus (fire_timer 2 True (on_close 3 1000 (disconnect stale_timer_client)))
       = Connecting"
proof -
  let ?S = "stale_timer_client"
  have d: "socks (disconnect ?S) = [CLOSED, CLOSED, CLOSED, CLOSING]"
    "ws (disconnect ?S) = None" "timers (disconnect ?S) = [(2, 4000)]"
    "closes (disconnect ?S) = [(0, 1000), (3, 1000)]"
    by (simp_all add: disconnect_def sock_close_def Let_def stale_timer_client_eval)
  have c: "socks (on_close 3 1000 (disconnect ?S)) = [CLOSED, CLOSED, CLOSED, CLOSED]"
    "ws (on_close 3 1000 (disconnect ?S)) = None"
    "timers (on_close 3 1000 (disconnect ?S)) = [(2, 4000)]"
    by (simp_all add: on_close_def Let_def d)
  have f: "socks (fire_timer 2 True (on_close 3 1000 (disconnect ?S)))
             = [CLOSED, CLOSED, CLOSED, CLOSED, CONNECTING]"
    "ws (fire_timer 2 True (on_close 3 1000 (disconnect ?S))) = Some 4"
    "connectionStatus (fire_timer 2 True (on_close 3 1000 (disconnect ?S))) = Connecting"
    by (simp_all add: fire_timer_def connect_def is_open_def Let_def c)
  have o: "is_open ?S" by (simp add: is_open_def stale_timer_client_eval)
  from o stale_timer_client_eval(3,2,4,5) d(4) d(2) c(3) c(1) f
  show ?thesis by (intro conjI)
qed

subsection \<open>C6: adding is idempotent, subscribing is not\<close>

text \<open>
  C6. Adding symbols that are all in the watchlist already (after upper-casing)
  through \<^verbatim>\<open>addToWatchlist\<close> is a no-op: the client is unchanged and nothing is
  sent. Removing symbols of which none is in the watchlist leaves the watchlist as
  it is. The hook's \<^verbatim>\<open>subscribe\<close> keeps no record of what was sent: every call while
  the current socket is open sends one \<^verbatim>\<open>subscribe\<close> frame, so calling
  \<^verbatim>\<open>subscribe([X])\<close> twice in a row sends two frames for \<open>X\<close>.
\<close>

theorem C6_add_idempotent_subscribe_resends:
  "(set (map toUpperCase symbols) \<subseteq> set (watchlist s) \<longrightarrow> addToWatchlist symbols s = s)
   \<and> (set (map toUpperCase symbols) \<inter> set (watchlist s) = {} \<longrightarrow>
        watchlist (removeFromWatchlist symbols s) = watchlist s)
   \<and> (ws s = Some i \<and> is_open s \<longrightarrow>
        sent (subscribe xs s) = sent s @ [(i, SubscribeMsg (map toUpperCase xs))]
      \<and> sent (subscribe xs (subscribe xs s)) =
          sent s @ [(i, SubscribeMsg (map toUpperCase xs)),
                    (i, SubscribeMsg (map toUpperCase xs))])"
proof (intro conjI impI)
  assume "set (map toUpperCase symbols) \<subseteq> set (watchlist s)"
  then have "filter (\<lambda>x. x \<notin> set (watchlist s)) (map toUpperCase symbols) = []"
    by (rule filter_none)
  then show "addToWatchlist symbols s = s"
    by (simp add: addToWatchlist_def Let_def)
next
  assume "set (map toUpperCase symbols) \<inter> set (watchlist s) = {}"
  then have "filter (\<lambda>x. x \<notin> set (map toUpperCase symbols)) (watchlist s) = watchlist s"
    by (auto simp: filter_id_conv)
  then show "watchlist (removeFromWatchlist symbols s) = watchlist s"
    by (simp add: removeFromWatchlist_def Let_def)
next
  assume "ws s = Some i \<and> is_open s"
  then show "sent (subscribe xs s) = sent s @ [(i, SubscribeMsg (map toUpperCase xs))]"
    by (simp add: subscribe_def sendMessage_open)
next
  assume a: "ws s = Some i \<and> is_open s"
  then have w: "ws s = Some i" and o: "is_open s" by simp_all
  have 1: "subscribe xs s = s\<lparr>sent := sent s @ [(i, SubscribeMsg (map toUpperCase xs))]\<rparr>"
    by (simp add: subscribe_def sendMessage_open[OF w o])
  have o': "is_open (s\<lparr>sent := sent s @ [(i, SubscribeMsg (map toUpperCase xs))]\<rparr>)"
    using o by (simp add: is_open_alt)
  show "sent (subscribe xs (subscribe xs s)) =
          sent s @ [(i, SubscribeMsg (map toUpperCase xs)),
                    (i, SubscribeMsg (map toUpperCase xs))]"
    unfolding 1 using w o' by (simp add: subscribe_def sendMessage_open)
qed

theorem C6_add_idempotent_subscribe_resends_witness:
  "set (map toUpperCase [''aapl'']) \<subseteq> set (watchlist (connected_client [''AAPL'', ''MSFT'']))
   \<and> addToWatchlist [''aapl''] (connected_client [''AAPL'', ''MSFT''])
       = connected_client [''AAPL'', ''MSFT'']
   \<and> set (map toUpperCase [''tsla'']) \<inter> set (watchlist (connected_client [''AAPL'', ''MSFT''])) = {}
   \<and> watchlist (removeFromWatchlist [''tsla''] (connected_client [''AAPL'', ''MSFT'']))
       = [''AAPL'', ''MSFT'']
   \<and> ws (connected_client [''AAPL'', ''MSFT'']) = Some 0
   \<and> is_open (connected_client [''AAPL'', ''MSFT''])
   \<and> sent (subscribe [''msft''] (connected_client [''AAPL'', ''MSFT''])) =
       [(0, SubscribeMsg [''AAPL'', ''MSFT'']), (0, SubscribeMsg [''MSFT''])]"
proof -
  let ?C = "connected_client [''AAPL'', ''MSFT'']"
  have w0: "watchlist ?C = [''AAPL'', ''MSFT'']" by (simp add: connected_client_eval)
  have u: "set (map toUpperCase [''aapl'']) \<subseteq> set (watchlist ?C)"
    by (simp add: w0 toUpperCase_examples)
  have v: "set (map toUpperCase [''tsla'']) \<inter> set (watchlist ?C) = {}"
    by (simp add: w0 toUpperCase_examples)
  have w: "ws ?C = Some 0" by (rule connected_client_open)
  have o: "is_open ?C" by (rule connected_client_open)
  have s0: "sent ?C = [(0, SubscribeMsg [''AAPL'', ''MSFT''])]"
    by (simp add: connected_client_eval toUpperCase_examples)
  note r = C6_add_idempotent_subscribe_resends[of _ ?C 0 "[''msft'']"]
  have a: "addToWatchlist [''aapl''] ?C = ?C"
    using r[of "[''aapl'']", THEN conjunct1, rule_format, OF u] .
  have b: "watchlist (removeFromWatchlist [''tsla''] ?C) = [''AAPL'', ''MSFT'']"
    using r[of "[''tsla'']", THEN conjunct2, THEN conjunct1, rule_format, OF v]
    by (simp only: w0)
  have "sent (subscribe [''msft''] ?C) =
          sent ?C @ [(0, SubscribeMsg (map toUpperCase [''msft'']))]"
    using r[of "[]", THEN conjunct2, THEN conjunct2, rule_format, OF conjI[OF w o],
        THEN conjunct1] .
  then have c: "sent (subscribe [''msft''] ?C) =
          [(0, SubscribeMsg [''AAPL'', ''MSFT'']), (0, SubscribeMsg [''MSFT''])]"
    by (simp add: s0 toUpperCase_examples)
  from u a v b w o c show ?thesis by (intro conjI)
qed

text \<open>Two calls of \<^verbatim>\<open>subscribe(['AAPL'])\<close> in a row on an open socket: two frames.\<close>

theorem C6_subscribe_twice_counterexample:
  "is_open (connected_client [])
   \<and> sent (subscribe [''AAPL''] (subscribe [''AAPL''] (connected_client []))) =
       [(0, SubscribeMsg [''AAPL'']), (0, SubscribeMsg [''AAPL''])]"
  by (simp add: connected_client_eval subscribe_def sendMessage_def is_open_def
        toUpperCase_examples)

subsection \<open>C7: the heartbeat sends pings and waits for nothing\<close>

text \<open>
  C7. While the current socket is open, the heartbeat callback, which
  \<^verbatim>\<open>setInterval\<close> runs every 30000 ms, sends one \<^verbatim>\<open>ping\<close> frame per run and does
  nothing else. The client awaits no \<^verbatim>\<open>pong\<close>: any number of heartbeats in a row,
  with no frame received in between, leaves the socket open, calls no \<^verbatim>\<open>close\<close>,
  schedules no reconnect and leaves the attempt counter as it is.
\<close>

theorem C7_heartbeat_pings_without_timeout:
  assumes "ws s = Some i" and "is_open s"
  shows "heartbeat_interval = 30000
       \<and> heartbeat now s = s\<lparr>sent := sent s @ [(i, PingMsg now)]\<rparr>
       \<and> run (map Tick ts) s = s\<lparr>sent := sent s @ map (\<lambda>t. (i, PingMsg t)) ts\<rparr>
       \<and> closes (run (map Tick ts) s) = closes s
       \<and> socks (run (map Tick ts) s) = socks s
       \<and> timers (run (map Tick ts) s) = timers s
       \<and> reconnectAttempts (run (map Tick ts) s) = reconnectAttempts s"
  using assms
  by (simp add: heartbeat_interval_def heartbeat_open ticks_open)

theorem C7_heartbeat_pings_without_timeout_witness:
  "ws (connected_client []) = Some 0
   \<and> is_open (connected_client [])
   \<and> sent (run (map Tick [''2024-01-01T00:00:30Z'', ''2024-01-01T00:01:00Z''])
        (connected_client [])) =
       [(0, PingMsg ''2024-01-01T00:00:30Z''), (0, PingMsg ''2024-01-01T00:01:00Z'')]"
proof -
  let ?C = "connected_client []"
  have w: "ws ?C = Some 0" by (rule connected_client_open)
  have o: "is_open ?C" by (rule connected_client_open)
  from C7_heartbeat_pings_without_timeout[OF w o,
      of _ "[''2024-01-01T00:00:30Z'', ''2024-01-01T00:01:00Z'']"]
  show ?thesis
    using w o by (simp add: connected_client_eval)
qed

text \<open>
  Four heartbeats, two minutes, and no frame from the server: four pings were
  sent, the socket is still open, \<^verbatim>\<open>close\<close> was never called, no timeout is
  pending and the attempt counter is 0.
\<close>

theorem C7_no_pong_timeout_counterexample:
  "sent (run [Tick ''2024-01-01T00:00:30Z'', Tick ''2024-01-01T00:01:00Z'',
              Tick ''2024-01-01T00:01:30Z'', Tick ''2024-01-01T00:02:00Z'']
          (connected_client [])) =
     [(0, PingMsg ''2024-01-01T00:00:30Z''), (0, PingMsg ''2024-01-01T00:01:00Z''),
      (0, PingMsg ''2024-01-01T00:01:30Z''), (0, PingMsg ''2024-01-01T00:02:00Z'')]
   \<and> socks (run [Tick ''2024-01-01T00:00:30Z'', Tick ''2024-01-01T00:01:00Z'',
              Tick ''2024-01-01T00:01:30Z'', Tick ''2024-01-01T00:02:00Z'']
          (connected_client [])) = [OPEN]
   \<and> closes (run [Tick ''2024-01-01T00:00:30Z'', Tick ''2024-01-01T00:01:00Z'',
              Tick ''2024-01-01T00:01:30Z'', Tick ''2024-01-01T00:02:00Z'']
          (connected_client [])) = []
   \<and> timers (run [Tick ''2024-01-01T00:00:30Z'', Tick ''2024-01-01T00:01:00Z'',
              Tick ''2024-01-01T00:01:30Z'', Tick ''2024-01-01T00:02:00Z'']
          (connected_client [])) = []
   \<and> reconnectAttempts (run [Tick ''2024-01-01T00:00:30Z'', Tick ''2024-01-01T00:01:00Z'',
              Tick ''2024-01-01T00:01:30Z'', Tick ''2024-01-01T00:02:00Z'']
          (connected_client [])) = 0"
  by (simp add: connected_client_eval run_def heartbeat_def sendMessage_def is_open_def)

subsection \<open>C8: frames that are not understood\<close>




subsection \<open>C9: a data frame touches one cache entry\<close>

text \<open>
  C9. Applying a \<^verbatim>\<open>market_data\<close> frame for symbol \<open>S\<close> updates only the cache
  entry of \<open>S\<close>: for every other symbol \<open>T\<close> the cached record is the same before
  and after, and the watchlist is unchanged.
\<close>

theorem C9_frame_updates_one_entry:
  assumes "field m ''symbol'' = Some (JStr S)"
  shows "(\<forall>T. T \<noteq> S \<longrightarrow> marketData (on_message (Parsed m) s) T = marketData s T)
       \<and> watchlist (on_message (Parsed m) s) = watchlist s"
proof -
  from assms have "m \<noteq> JNull" by auto
  with assms show ?thesis
    by (auto simp: on_message_def Let_def split: option.splits)
qed

theorem C9_frame_updates_one_entry_witness:
  "field (market_data_frame newer_record) ''symbol'' = Some (JStr ''AAPL'')
   \<and> marketData (on_message (Parsed (market_data_frame newer_record))
        (connected_client [''AAPL'', ''MSFT''])) ''MSFT''
       = marketData (connected_client [''AAPL'', ''MSFT'']) ''MSFT''
   \<and> watchlist (on_message (Parsed (market_data_frame newer_record))
        (connected_client [''AAPL'', ''MSFT''])) = [''AAPL'', ''MSFT'']"
proof -
  let ?C = "connected_client [''AAPL'', ''MSFT'']"
  have k: "field (market_data_frame newer_record) ''symbol'' = Some (JStr ''AAPL'')"
    by (rule field_examples)
  have w0: "watchlist ?C = [''AAPL'', ''MSFT'']" by (simp add: connected_client_eval)
  have n: "''MSFT'' \<noteq> ''AAPL''" by simp
  note r = C9_frame_updates_one_entry[OF k, of ?C]
  have "marketData (on_message (Parsed (market_data_frame newer_record)) ?C) ''MSFT''
          = marketData ?C ''MSFT''"
    using r[THEN conjunct1, rule_format, OF n] .
  moreover have "watchlist (on_message (Parsed (market_data_frame newer_record)) ?C)
          = [''AAPL'', ''MSFT'']"
    using r[THEN conjunct2] by (simp only: w0)
  ultimately show ?thesis using k by (intro conjI)
qed

subsection \<open>C10: sending while the socket is not open\<close>

text \<open>
  C10. A call of \<^verbatim>\<open>subscribe\<close> or \<^verbatim>\<open>unsubscribe\<close> while the current socket is not
  open (there is none, or it is connecting, closing or closed) sends nothing and
  raises nothing: the client is unchanged but for one warning on the console.
  Nothing is queued: after any later run of events, the frames sent are those that
  would have been sent without the call.
\<close>

theorem C10_send_while_closed_is_dropped:
  assumes "\<not> is_open s"
  shows "subscribe symbols s =
           s\<lparr>console := console s @ [ConsoleWarn ''WebSocket is not connected'']\<rparr>
       \<and> unsubscribe symbols s =
           s\<lparr>console := console s @ [ConsoleWarn ''WebSocket is not connected'']\<rparr>
       \<and> sent (subscribe symbols s) = sent s
       \<and> sent (unsubscribe symbols s) = sent s
       \<and> (\<forall>evs. sent (run evs (subscribe symbols s)) = sent (run evs s))
       \<and> (\<forall>evs. sent (run evs (unsubscribe symbols s)) = sent (run evs s))"
proof -
  have 1: "subscribe symbols s =
             s\<lparr>console := console s @ [ConsoleWarn ''WebSocket is not connected'']\<rparr>"
    using assms by (simp add: subscribe_def sendMessage_def)
  have 2: "unsubscribe symbols s =
             s\<lparr>console := console s @ [ConsoleWarn ''WebSocket is not connected'']\<rparr>"
    using assms by (simp add: unsubscribe_def sendMessage_def)
  have 3: "forget (subscribe symbols s) = forget s" by (simp only: 1 forget_console)
  have 4: "forget (unsubscribe symbols s) = forget s" by (simp only: 2 forget_console)
  have 5: "sent (subscribe symbols s) = sent s" by (simp add: 1)
  have 6: "sent (unsubscribe symbols s) = sent s" by (simp add: 2)
  show ?thesis
    using 1 2 5 6 run_same_sent[OF 3] run_same_sent[OF 4] by blast
qed

theorem C10_send_while_closed_is_dropped_witness:
  "\<not> is_open (initial [''AAPL''])
   \<and> sent (subscribe [''msft''] (initial [''AAPL''])) = []
   \<and> sent (run [Mount True, SockOpen 0] (subscribe [''msft''] (initial [''AAPL'']))) =
       [(0, SubscribeMsg [''AAPL''])]"
proof -
  let ?I = "initial [''AAPL'']"
  have h: "\<not> is_open ?I" by (simp add: is_open_def initial_def)
  have s0: "sent ?I = []" by (simp add: initial_def)
  have r: "sent (run [Mount True, SockOpen 0] ?I) = [(0, SubscribeMsg [''AAPL''])]"
    using connected_client_eval[of "[''AAPL'']"]
    by (simp add: connected_client_def toUpperCase_examples)
  note d = C10_send_while_closed_is_dropped[OF h, of "[''msft'']"]
  have "sent (subscribe [''msft''] ?I) = []"
    using d[THEN conjunct2, THEN conjunct2, THEN conjunct1] by (simp only: s0)
  moreover have "sent (run [Mount True, SockOpen 0] (subscribe [''msft''] ?I))
         = [(0, SubscribeMsg [''AAPL''])]"
    using d[THEN conjunct2, THEN conjunct2, THEN conjunct2, THEN conjunct2, THEN conjunct1,
        rule_format, of "[Mount True, SockOpen 0]"]
    by (simp only: r)
  ultimately show ?thesis using h by (intro conjI)
qed

end
